theory Spec2Isabelle
  imports
    Main
    "HOL-Library.Multiset"
    "HOL-Library.Char_ord"
    "HOL-Library.List_Lexorder"
    "HOL-Library.Option_ord"
begin

section \<open>Sensor readings\<close>

text \<open>
  A reading carries the six fields that \<^verbatim>\<open>generate_record\<close> writes and that the manual entry
  form of the dashboard inserts: the identifier, the area and the timestamp are strings,
  and the measurements are integers. The three measurements are optional: a document may
  lack one, and the store then treats the field as missing. A stored document is a
  reading together with the \<^verbatim>\<open>_id\<close> the store assigns.
\<close>

record reading =
  sensor_id :: string
  area :: string
  timestamp :: string
  noise_db :: "int option"
  traffic_count :: "int option"
  pm25 :: "int option"

record document = reading +
  oid :: nat

datatype error = OperationFailure

section \<open>The store's pipeline stages\<close>

text \<open>
  The programs hand aggregation pipelines to the document store. Each stage that the
  pipelines use is a function on lists of rows; the collection is the list of its
  documents in the order of a collection scan.

  Three behaviours of the store are parameters of the model:
  \<^item> \<open>emit\<close>, the order in which a stage hands on rows whose order the store does not fix
    (the groups of \<^verbatim>\<open>$group\<close>, rows with equal keys under \<^verbatim>\<open>$sort\<close>);
  \<^item> \<open>to_date\<close>, the conversion \<^verbatim>\<open>$toDate\<close> of a string to a date, in milliseconds since the
    epoch, \<open>None\<close> where the string is not a date;
  \<^item> \<open>avg2\<close>, the store's \<^verbatim>\<open>$avg\<close> followed by \<^verbatim>\<open>$round\<close> to 2 places, on a non-empty list
    of numbers. Its floating-point arithmetic is not modelled.
\<close>

definition rearranges :: "('a list \<Rightarrow> 'a list) \<Rightarrow> bool" where
  "rearranges emit \<longleftrightarrow> (\<forall>xs. mset (emit xs) = mset xs)"

text \<open>\<^verbatim>\<open>{"$gt": n}\<close> on a field: a missing field matches nothing.\<close>

fun gt :: "int option \<Rightarrow> int \<Rightarrow> bool" where
  "gt None n = False"
| "gt (Some x) n = (n < x)"

text \<open>\<^verbatim>\<open>$group\<close>: one row per distinct key, holding the accumulator over the rows of that key.\<close>

definition group_stage ::
  "(('k \<times> 'm) list \<Rightarrow> ('k \<times> 'm) list) \<Rightarrow> ('d \<Rightarrow> 'k) \<Rightarrow> ('d list \<Rightarrow> 'm) \<Rightarrow> 'd list
     \<Rightarrow> ('k \<times> 'm) list" where
  "group_stage emit key acc ds =
     emit (map (\<lambda>k. (k, acc (filter (\<lambda>d. key d = k) ds))) (remdups (map key ds)))"

text \<open>\<^verbatim>\<open>$group\<close> with the constant key \<^verbatim>\<open>None\<close>: one row when there is any input, none otherwise.\<close>

definition group_all :: "('d list \<Rightarrow> 'm) \<Rightarrow> 'd list \<Rightarrow> 'm list" where
  "group_all acc ds = (if ds = [] then [] else [acc ds])"

text \<open>
  \<^verbatim>\<open>$avg\<close> of a field, then \<^verbatim>\<open>$round\<close> to 2 places: missing values are skipped, and the
  result is null when no value is left.
\<close>

definition present :: "'a option list \<Rightarrow> 'a list" where
  "present vs = concat (map (\<lambda>v. case v of None \<Rightarrow> [] | Some x \<Rightarrow> [x]) vs)"

definition avg_round :: "(int list \<Rightarrow> 'v) \<Rightarrow> int option list \<Rightarrow> 'v option" where
  "avg_round avg2 vs = (if present vs = [] then None else Some (avg2 (present vs)))"

text \<open>
  \<^verbatim>\<open>$sort\<close>, ascending and descending. Strings compare byte by byte, and null is below
  every number. Rows with equal keys stay in the order in which they arrive, which is the
  order \<open>emit\<close> chose.
\<close>

definition sort_asc :: "('d \<Rightarrow> 'k::linorder) \<Rightarrow> 'd list \<Rightarrow> 'd list" where
  "sort_asc key ds = sort_key key ds"

definition sort_desc :: "('d \<Rightarrow> 'k::linorder) \<Rightarrow> 'd list \<Rightarrow> 'd list" where
  "sort_desc key ds = rev (sort_key key (rev ds))"

text \<open>\<^verbatim>\<open>$count\<close>: a single row with the number of input rows, and no row at all for no input.\<close>

definition count_stage :: "'d list \<Rightarrow> int list" where
  "count_stage ds = (if ds = [] then [] else [int (length ds)])"

text \<open>
  \<^verbatim>\<open>{"$addFields": {"ts": {"$toDate": "$timestamp"}}}\<close>: every row gets its date; a timestamp
  that does not convert makes the whole aggregation fail.
\<close>

fun add_ts ::
  "(string \<Rightarrow> int option) \<Rightarrow> 'a reading_scheme list \<Rightarrow> error + ('a reading_scheme \<times> int) list" where
  "add_ts to_date [] = Inr []"
| "add_ts to_date (d # ds) =
     (case to_date (timestamp d) of
        None \<Rightarrow> Inl OperationFailure
      | Some t \<Rightarrow>
          (case add_ts to_date ds of
             Inl e \<Rightarrow> Inl e
           | Inr r \<Rightarrow> Inr ((d, t) # r)))"

text \<open>\<^verbatim>\<open>$hour\<close>: the hour of the day of a date, in UTC.\<close>

definition hour :: "int \<Rightarrow> nat" where
  "hour t = nat ((t div 3600000) mod 24)"

text \<open>
  The projection \<^verbatim>\<open>{"_id": 0, "sensor_id": 1, "area": 1, "timestamp": 1, "noise_db": 1,
  "traffic_count": 1, "pm25": 1}\<close>.
\<close>

definition project :: "document \<Rightarrow> reading" where
  "project d =
     \<lparr>sensor_id = sensor_id d, area = area d, timestamp = timestamp d,
      noise_db = noise_db d, traffic_count = traffic_count d, pm25 = pm25 d\<rparr>"

text \<open>
  The match \<^verbatim>\<open>{"$or": [{"noise_db": {"$gt": 85}}, {"traffic_count": {"$gt": 150}},
  {"pm25": {"$gt": 100}}]}\<close>.
\<close>

definition abnormal_match :: "'a reading_scheme \<Rightarrow> bool" where
  "abnormal_match d \<longleftrightarrow> gt (noise_db d) 85 \<or> gt (traffic_count d) 150 \<or> gt (pm25 d) 100"

section \<open>\<^verbatim>\<open>analytics/analysis.py\<close>\<close>

definition area_wise_avg_pm25 ::
  "((string \<times> 'v option) list \<Rightarrow> (string \<times> 'v option) list) \<Rightarrow> (int list \<Rightarrow> 'v)
     \<Rightarrow> document list \<Rightarrow> (string \<times> 'v option) list" where
  "area_wise_avg_pm25 emit avg2 coll =
     sort_asc fst (group_stage emit area (\<lambda>g. avg_round avg2 (map pm25 g)) coll)"

definition traffic_density_by_hour ::
  "((nat \<times> 'v option) list \<Rightarrow> (nat \<times> 'v option) list) \<Rightarrow> (string \<Rightarrow> int option)
     \<Rightarrow> (int list \<Rightarrow> 'v) \<Rightarrow> document list \<Rightarrow> error + (nat \<times> 'v option) list" where
  "traffic_density_by_hour emit to_date avg2 coll =
     (case add_ts to_date coll of
        Inl e \<Rightarrow> Inl e
      | Inr ds \<Rightarrow>
          Inr (sort_asc fst
                 (group_stage emit (\<lambda>(d, ts). hour ts)
                    (\<lambda>g. avg_round avg2 (map (\<lambda>(d, ts). traffic_count d) g)) ds)))"

definition avg_noise_by_area ::
  "((string \<times> 'v option) list \<Rightarrow> (string \<times> 'v option) list) \<Rightarrow> (int list \<Rightarrow> 'v)
     \<Rightarrow> document list \<Rightarrow> (string \<times> 'v option) list" where
  "avg_noise_by_area emit avg2 coll =
     sort_asc fst (group_stage emit area (\<lambda>g. avg_round avg2 (map noise_db g)) coll)"

definition abnormal_readings ::
  "(reading list \<Rightarrow> reading list) \<Rightarrow> document list \<Rightarrow> reading list" where
  "abnormal_readings emit coll =
     take 1000 (sort_asc timestamp (emit (map project (filter abnormal_match coll))))"

section \<open>\<^verbatim>\<open>dashboard/app.py\<close>\<close>

text \<open>
  The filter document: \<^verbatim>\<open>{"area": {"$in": selected_areas}} if selected_areas else {}\<close>.
\<close>

datatype query = Empty_Query | Area_In "string list"

definition filter_query :: "string list \<Rightarrow> query" where
  "filter_query selected_areas =
     (if selected_areas \<noteq> [] then Area_In selected_areas else Empty_Query)"

fun matches :: "query \<Rightarrow> 'a reading_scheme \<Rightarrow> bool" where
  "matches Empty_Query d = True"
| "matches (Area_In as) d = (area d \<in> set as)"

text \<open>\<^verbatim>\<open>_match_filter\<close>: a \<^verbatim>\<open>$match\<close> stage, or no stage for the empty query.\<close>

definition match_filter :: "query \<Rightarrow> 'a reading_scheme list \<Rightarrow> 'a reading_scheme list" where
  "match_filter base_query ds =
     (if base_query \<noteq> Empty_Query then filter (matches base_query) ds else ds)"

definition get_avg_pm25 ::
  "(int list \<Rightarrow> 'v) \<Rightarrow> string list \<Rightarrow> document list \<Rightarrow> 'v option" where
  "get_avg_pm25 avg2 sel coll =
     (case group_all (\<lambda>g. avg_round avg2 (map pm25 g))
             (match_filter (filter_query sel) coll) of
        [] \<Rightarrow> None
      | r # _ \<Rightarrow> r)"

definition get_worst_pollution_area ::
  "((string \<times> 'v option) list \<Rightarrow> (string \<times> 'v option) list) \<Rightarrow> (int list \<Rightarrow> 'v::linorder)
     \<Rightarrow> string list \<Rightarrow> document list \<Rightarrow> string option \<times> 'v option" where
  "get_worst_pollution_area emit avg2 sel coll =
     (case take 1 (sort_desc snd
             (group_stage emit area (\<lambda>g. avg_round avg2 (map pm25 g))
                (match_filter (filter_query sel) coll))) of
        [] \<Rightarrow> (None, None)
      | (a, m) # _ \<Rightarrow> (Some a, m))"

definition get_peak_traffic_hour ::
  "((nat \<times> 'v option) list \<Rightarrow> (nat \<times> 'v option) list) \<Rightarrow> (string \<Rightarrow> int option)
     \<Rightarrow> (int list \<Rightarrow> 'v::linorder) \<Rightarrow> string list \<Rightarrow> document list
     \<Rightarrow> error + (nat option \<times> 'v option)" where
  "get_peak_traffic_hour emit to_date avg2 sel coll =
     (case add_ts to_date (match_filter (filter_query sel) coll) of
        Inl e \<Rightarrow> Inl e
      | Inr ds \<Rightarrow>
          Inr (case take 1 (sort_desc snd
                      (group_stage emit (\<lambda>(d, ts). hour ts)
                         (\<lambda>g. avg_round avg2 (map (\<lambda>(d, ts). traffic_count d) g)) ds)) of
                 [] \<Rightarrow> (None, None)
               | (h, m) # _ \<Rightarrow> (Some h, m)))"

definition get_noisiest_area ::
  "((string \<times> 'v option) list \<Rightarrow> (string \<times> 'v option) list) \<Rightarrow> (int list \<Rightarrow> 'v::linorder)
     \<Rightarrow> string list \<Rightarrow> document list \<Rightarrow> string option \<times> 'v option" where
  "get_noisiest_area emit avg2 sel coll =
     (case take 1 (sort_desc snd
             (group_stage emit area (\<lambda>g. avg_round avg2 (map noise_db g))
                (match_filter (filter_query sel) coll))) of
        [] \<Rightarrow> (None, None)
      | (a, m) # _ \<Rightarrow> (Some a, m))"

text \<open>
  \<^verbatim>\<open>get_abnormal_count\<close> and the abnormal listing merge the filter document into the match of
  the three thresholds (\<^verbatim>\<open>match.update(filter_query)\<close>, \<^verbatim>\<open>{"$or": [...], **filter_query}\<close>),
  so a document has to satisfy both.
\<close>

definition abnormal_query :: "string list \<Rightarrow> 'a reading_scheme \<Rightarrow> bool" where
  "abnormal_query sel d \<longleftrightarrow> abnormal_match d \<and> matches (filter_query sel) d"

definition get_abnormal_count :: "string list \<Rightarrow> document list \<Rightarrow> int" where
  "get_abnormal_count sel coll =
     (case count_stage (filter (abnormal_query sel) coll) of
        [] \<Rightarrow> 0
      | c # _ \<Rightarrow> c)"

text \<open>The four result collections of a refresh; none of the area and hour pipelines sorts.\<close>

definition area_pm ::
  "((string \<times> 'v option) list \<Rightarrow> (string \<times> 'v option) list) \<Rightarrow> (int list \<Rightarrow> 'v)
     \<Rightarrow> string list \<Rightarrow> document list \<Rightarrow> (string \<times> 'v option) list" where
  "area_pm emit avg2 sel coll =
     group_stage emit area (\<lambda>g. avg_round avg2 (map pm25 g))
       (filter (matches (filter_query sel)) coll)"

definition noise_by_area ::
  "((string \<times> 'v option) list \<Rightarrow> (string \<times> 'v option) list) \<Rightarrow> (int list \<Rightarrow> 'v)
     \<Rightarrow> string list \<Rightarrow> document list \<Rightarrow> (string \<times> 'v option) list" where
  "noise_by_area emit avg2 sel coll =
     group_stage emit area (\<lambda>g. avg_round avg2 (map noise_db g))
       (filter (matches (filter_query sel)) coll)"

definition traffic_by_hour ::
  "((nat \<times> 'v option) list \<Rightarrow> (nat \<times> 'v option) list) \<Rightarrow> (string \<Rightarrow> int option)
     \<Rightarrow> (int list \<Rightarrow> 'v) \<Rightarrow> string list \<Rightarrow> document list \<Rightarrow> error + (nat \<times> 'v option) list" where
  "traffic_by_hour emit to_date avg2 sel coll =
     (case add_ts to_date (filter (matches (filter_query sel)) coll) of
        Inl e \<Rightarrow> Inl e
      | Inr ds \<Rightarrow>
          Inr (group_stage emit (\<lambda>(d, ts). hour ts)
                 (\<lambda>g. avg_round avg2 (map (\<lambda>(d, ts). traffic_count d) g)) ds))"

definition abnormal ::
  "(reading list \<Rightarrow> reading list) \<Rightarrow> string list \<Rightarrow> document list \<Rightarrow> reading list" where
  "abnormal emit sel coll =
     take 1000 (sort_asc timestamp (emit (map project (filter (abnormal_query sel) coll))))"

text \<open>
  The area rows as the charts and downloads get them:
  \<^verbatim>\<open>pd.DataFrame(area_pm).sort_values("avg_pm25", ascending=False)\<close>, and the same for noise.
\<close>

definition df_pm ::
  "((string \<times> 'v option) list \<Rightarrow> (string \<times> 'v option) list) \<Rightarrow> (int list \<Rightarrow> 'v::linorder)
     \<Rightarrow> string list \<Rightarrow> document list \<Rightarrow> (string \<times> 'v option) list" where
  "df_pm emit avg2 sel coll = sort_desc snd (area_pm emit avg2 sel coll)"

definition df_noise ::
  "((string \<times> 'v option) list \<Rightarrow> (string \<times> 'v option) list) \<Rightarrow> (int list \<Rightarrow> 'v::linorder)
     \<Rightarrow> string list \<Rightarrow> document list \<Rightarrow> (string \<times> 'v option) list" where
  "df_noise emit avg2 sel coll = sort_desc snd (noise_by_area emit avg2 sel coll)"

section \<open>Example data\<close>

text \<open>
  Four documents, a conversion of their timestamps and, for \<open>avg2\<close>, the mean in hundredths
  with ties to even, in exact arithmetic. They serve to evaluate the operations.
\<close>

definition doc_park :: document where
  "doc_park =
     \<lparr>sensor_id = ''s1'', area = ''Park Area'', timestamp = ''2024-01-01T08:30'',
      noise_db = Some 10, traffic_count = Some 10, pm25 = Some 101, oid = 1\<rparr>"

definition doc_city :: document where
  "doc_city =
     \<lparr>sensor_id = ''s2'', area = ''City Center'', timestamp = ''2024-01-01T09:30'',
      noise_db = Some 10, traffic_count = Some 10, pm25 = Some 100, oid = 2\<rparr>"

definition doc_bad_ts :: document where
  "doc_bad_ts =
     \<lparr>sensor_id = ''s3'', area = ''City Center'', timestamp = ''not a date'',
      noise_db = Some 90, traffic_count = Some 40, pm25 = Some 20, oid = 3\<rparr>"

definition doc_no_pm25 :: document where
  "doc_no_pm25 =
     \<lparr>sensor_id = ''s4'', area = ''Park Area'', timestamp = ''2024-01-01T09:30'',
      noise_db = Some 60, traffic_count = Some 30, pm25 = None, oid = 4\<rparr>"

definition example_to_date :: "string \<Rightarrow> int option" where
  "example_to_date s =
     (if s = ''2024-01-01T08:30'' then Some 1704097800000
      else if s = ''2024-01-01T09:30'' then Some 1704101400000
      else None)"

definition example_avg2 :: "int list \<Rightarrow> int" where
  "example_avg2 xs =
     (let n = int (length xs); q = 100 * sum_list xs; f = q div n; r = 2 * (q mod n)
      in if r < n then f else if n < r then f + 1 else if even f then f else f + 1)"

section \<open>Rows in an order the store chooses\<close>

lemma rearranges_id: "rearranges id"
  by (simp add: rearranges_def)

lemma rearranges_set: "rearranges emit \<Longrightarrow> set (emit xs) = set xs"
  unfolding rearranges_def by (metis set_mset_mset)

lemma rearranges_length: "rearranges emit \<Longrightarrow> length (emit xs) = length xs"
  unfolding rearranges_def by (metis size_mset)

lemma rearranges_Nil: "rearranges emit \<Longrightarrow> emit [] = []"
  using rearranges_length [of emit "[]"] by simp

lemma rearranges_single:
  assumes "rearranges emit"
  shows "emit [x] = [x]"
proof -
  have "mset (emit [x]) = {#x#}"
    using assms by (simp add: rearranges_def)
  then show ?thesis by simp
qed

lemma rearranges_distinct_map:
  assumes "rearranges emit"
  shows "distinct (map f (emit xs)) = distinct (map f xs)"
proof -
  have "mset (map f (emit xs)) = mset (map f xs)"
    using assms by (simp add: rearranges_def)
  then show ?thesis by (metis distinct_count_atmost_1 set_mset_mset)
qed

section \<open>Grouping\<close>

lemma set_group_stage:
  assumes "rearranges emit"
  shows "set (group_stage emit key acc ds) =
           (\<lambda>k. (k, acc (filter (\<lambda>d. key d = k) ds))) ` key ` set ds"
  using assms by (simp add: group_stage_def rearranges_set)

lemma keys_group_stage:
  assumes "rearranges emit"
  shows "set (map fst (group_stage emit key acc ds)) = key ` set ds"
  using assms by (force simp: set_group_stage)

lemma distinct_group_stage:
  assumes "rearranges emit"
  shows "distinct (map fst (group_stage emit key acc ds))"
  using assms by (simp add: group_stage_def rearranges_distinct_map comp_def)

lemma rows_by_key:
  assumes "\<forall>r \<in> set rs. r = row (fst r)"
  shows "rs = map row (map fst rs)"
  using assms by (induction rs) auto

text \<open>Sorted by its key, the result of a grouping no longer depends on the order of emission.\<close>

lemma sort_group_stage:
  assumes "rearranges emit"
  shows "sort_asc fst (group_stage emit key acc ds) =
           map (\<lambda>k. (k, acc (filter (\<lambda>d. key d = k) ds))) (sorted_list_of_set (key ` set ds))"
proof -
  let ?row = "\<lambda>k. (k, acc (filter (\<lambda>d. key d = k) ds))"
  let ?rs = "sort_asc fst (group_stage emit key acc ds)"
  have set_rs: "set ?rs = ?row ` key ` set ds"
    using assms by (simp add: sort_asc_def set_group_stage)
  have "\<forall>r \<in> set ?rs. r = ?row (fst r)"
    unfolding set_rs by auto
  then have shape: "?rs = map ?row (map fst ?rs)"
    by (rule rows_by_key)
  have "mset (map fst ?rs) = mset (map fst (group_stage emit key acc ds))"
    by (simp add: sort_asc_def)
  then have "distinct (map fst ?rs)"
    using distinct_group_stage [OF assms, of key acc ds]
    by (metis distinct_count_atmost_1 set_mset_mset)
  moreover have "sorted (map fst ?rs)"
    by (simp add: sort_asc_def)
  moreover have "set (map fst ?rs) = key ` set ds"
    unfolding set_map set_rs by (simp add: image_image)
  ultimately have "map fst ?rs = sorted_list_of_set (key ` set ds)"
    by (metis sorted_list_of_set.idem_if_sorted_distinct)
  with shape show ?thesis by simp
qed

section \<open>The abnormal listing\<close>

lemma gt_iff: "gt v n \<longleftrightarrow> (\<exists>x. v = Some x \<and> n < x)"
  by (cases v) auto

lemma abnormal_match_iff:
  "abnormal_match d \<longleftrightarrow>
     (\<exists>n. noise_db d = Some n \<and> 85 < n) \<or> (\<exists>n. traffic_count d = Some n \<and> 150 < n)
     \<or> (\<exists>n. pm25 d = Some n \<and> 100 < n)"
  by (simp add: abnormal_match_def gt_iff)

lemma filter_query_Nil: "matches (filter_query []) d"
  by (simp add: filter_query_def)

lemma abnormal_query_Nil: "abnormal_query [] = abnormal_match"
  by (rule ext) (simp add: abnormal_query_def filter_query_def)

lemma abnormal_readings_abnormal: "abnormal_readings emit coll = abnormal emit [] coll"
  by (simp add: abnormal_readings_def abnormal_def abnormal_query_Nil)

lemma mset_capped_listing:
  assumes "rearranges emit"
  shows "mset (sort_asc key (emit xs)) = mset xs"
  using assms by (simp add: sort_asc_def rearranges_def)

lemma length_capped_listing:
  assumes "rearranges emit"
  shows "length (take n (sort_asc key (emit (map f xs)))) = min n (length xs)"
  using assms by (simp add: sort_asc_def rearranges_length min.commute)

lemma take_sorted_earliest:
  assumes "sorted (map key xs)" "l \<in> set (take n xs)" "r \<in> set (drop n xs)"
  shows "key l \<le> key r"
proof -
  have "sorted (map key (take n xs) @ map key (drop n xs))"
    using assms(1) by (simp flip: map_append)
  then show ?thesis
    using assms(2,3) by (auto simp: sorted_append)
qed

lemma mset_drop_diff: "mset (drop n xs) = mset xs - mset (take n xs)"
proof -
  have "mset xs = mset (take n xs) + mset (drop n xs)"
    by (simp flip: mset_append)
  then show ?thesis by simp
qed

lemma take_sorted_earliest_mset:
  assumes ms: "mset s = mset q" and srt: "sorted (map key s)"
  shows "mset (take n s) \<subseteq># mset q
       \<and> (\<forall>l \<in> set (take n s). \<forall>r \<in># mset q - mset (take n s). key l \<le> key r)"
proof -
  have "mset (take n s) \<subseteq># mset s"
    by (metis append_take_drop_id mset_append mset_subset_eq_add_left)
  then have sub: "mset (take n s) \<subseteq># mset q"
    by (simp add: ms)
  have rest: "mset q - mset (take n s) = mset (drop n s)"
    by (simp add: mset_drop_diff ms)
  have "\<forall>l \<in> set (take n s). \<forall>r \<in> set (drop n s). key l \<le> key r"
    by (intro ballI) (rule take_sorted_earliest [OF srt])
  then have "\<forall>l \<in> set (take n s). \<forall>r \<in># mset q - mset (take n s). key l \<le> key r"
    unfolding rest by simp
  with sub show ?thesis by blast
qed

lemma abnormal_sound:
  assumes "rearranges emit"
  shows "set (abnormal emit sel coll) \<subseteq> project ` {d \<in> set coll. abnormal_query sel d}"
proof -
  have "set (abnormal emit sel coll) \<subseteq>
          set (sort_asc timestamp (emit (map project (filter (abnormal_query sel) coll))))"
    unfolding abnormal_def by (rule set_take_subset)
  also have "\<dots> = project ` {d \<in> set coll. abnormal_query sel d}"
    using assms by (simp add: sort_asc_def rearranges_set)
  finally show ?thesis .
qed

lemma abnormal_complete:
  assumes "rearranges emit"
    and "length (filter (abnormal_query sel) coll) \<le> 1000"
  shows "mset (abnormal emit sel coll) = mset (map project (filter (abnormal_query sel) coll))"
proof -
  let ?q = "map project (filter (abnormal_query sel) coll)"
  have "length (sort_asc timestamp (emit ?q)) \<le> 1000"
    using assms by (simp add: sort_asc_def rearranges_length)
  then have "abnormal emit sel coll = sort_asc timestamp (emit ?q)"
    by (simp add: abnormal_def)
  then show ?thesis
    using assms(1) by (simp add: mset_capped_listing)
qed

lemma abnormal_sorted: "sorted (map timestamp (abnormal emit sel coll))"
  by (simp add: abnormal_def sort_asc_def sorted_wrt_take flip: take_map)

lemma abnormal_length:
  assumes "rearranges emit"
  shows "length (abnormal emit sel coll) = min 1000 (length (filter (abnormal_query sel) coll))"
  unfolding abnormal_def using assms by (rule length_capped_listing)

lemma abnormal_earliest:
  assumes "rearranges emit"
  shows "mset (abnormal emit sel coll) \<subseteq># mset (map project (filter (abnormal_query sel) coll))
       \<and> (\<forall>l \<in> set (abnormal emit sel coll).
            \<forall>r \<in># mset (map project (filter (abnormal_query sel) coll))
                  - mset (abnormal emit sel coll).
              timestamp l \<le> timestamp r)"
  unfolding abnormal_def
proof (rule take_sorted_earliest_mset)
  show "mset (sort_asc timestamp (emit (map project (filter (abnormal_query sel) coll)))) =
        mset (map project (filter (abnormal_query sel) coll))"
    using assms by (rule mset_capped_listing)
  show "sorted (map timestamp
          (sort_asc timestamp (emit (map project (filter (abnormal_query sel) coll)))))"
    unfolding sort_asc_def by (rule sorted_sort_key)
qed

lemma get_abnormal_count_length:
  "get_abnormal_count sel coll = int (length (filter (abnormal_query sel) coll))"
  by (simp add: get_abnormal_count_def count_stage_def)

lemma abnormal_single:
  assumes "rearranges emit"
  shows "abnormal_readings emit [d] = (if abnormal_match d then [project d] else [])"
  using assms by (simp add: abnormal_readings_def sort_asc_def rearranges_single rearranges_Nil)

section \<open>Claims about the abnormal readings\<close>

text \<open>
  C1. The abnormal listing returns only projections of readings with \<open>noise_db > 85\<close> or
  \<open>traffic_count > 150\<close> or \<open>pm25 > 100\<close> (satisfying the filter, in the dashboard), and all
  of them as long as no more than the 1000 rows of the cap qualify. The comparisons are
  strict: a reading with \<open>pm25 = 101\<close> is listed whatever its other fields are, and a
  reading with \<open>pm25 = 100\<close> whose other fields do not exceed 85 and 150 is not.
\<close>

theorem abnormal_readings_threshold_disjunction:
  assumes "rearranges emit"
  shows "set (abnormal_readings emit coll) \<subseteq>
           project ` {d \<in> set coll.
             (\<exists>n. noise_db d = Some n \<and> 85 < n) \<or> (\<exists>n. traffic_count d = Some n \<and> 150 < n)
             \<or> (\<exists>n. pm25 d = Some n \<and> 100 < n)}
       \<and> (length (filter abnormal_match coll) \<le> 1000 \<longrightarrow>
            mset (abnormal_readings emit coll) =
              mset (map project (filter (\<lambda>d.
                (\<exists>n. noise_db d = Some n \<and> 85 < n) \<or> (\<exists>n. traffic_count d = Some n \<and> 150 < n)
                \<or> (\<exists>n. pm25 d = Some n \<and> 100 < n)) coll)))
       \<and> set (abnormal emit sel coll) \<subseteq>
           project ` {d \<in> set coll.
             ((\<exists>n. noise_db d = Some n \<and> 85 < n) \<or> (\<exists>n. traffic_count d = Some n \<and> 150 < n)
              \<or> (\<exists>n. pm25 d = Some n \<and> 100 < n))
             \<and> matches (filter_query sel) d}
       \<and> (length (filter (abnormal_query sel) coll) \<le> 1000 \<longrightarrow>
            mset (abnormal emit sel coll) =
              mset (map project (filter (\<lambda>d.
                ((\<exists>n. noise_db d = Some n \<and> 85 < n) \<or> (\<exists>n. traffic_count d = Some n \<and> 150 < n)
                 \<or> (\<exists>n. pm25 d = Some n \<and> 100 < n))
                \<and> matches (filter_query sel) d) coll)))
       \<and> (pm25 d = Some 101 \<longrightarrow> abnormal_readings emit [d] = [project d])
       \<and> (pm25 d = Some 100 \<and> (\<forall>n. noise_db d = Some n \<longrightarrow> n \<le> 85)
            \<and> (\<forall>n. traffic_count d = Some n \<longrightarrow> n \<le> 150) \<longrightarrow>
            abnormal_readings emit [d] = [])"
proof -
  have q: "abnormal_query sel = (\<lambda>d.
      ((\<exists>n. noise_db d = Some n \<and> 85 < n) \<or> (\<exists>n. traffic_count d = Some n \<and> 150 < n)
       \<or> (\<exists>n. pm25 d = Some n \<and> 100 < n)) \<and> matches (filter_query sel) d)" for sel
    by (rule ext) (simp add: abnormal_query_def abnormal_match_iff)
  have m: "abnormal_match = (\<lambda>d::document.
      (\<exists>n. noise_db d = Some n \<and> 85 < n) \<or> (\<exists>n. traffic_count d = Some n \<and> 150 < n)
       \<or> (\<exists>n. pm25 d = Some n \<and> 100 < n))"
    by (rule ext) (simp add: abnormal_match_iff)
  have 1: "set (abnormal emit sel coll) \<subseteq> project ` {d \<in> set coll. abnormal_query sel d}" for sel
    using assms by (rule abnormal_sound)
  have 2: "length (filter (abnormal_query sel) coll) \<le> 1000 \<longrightarrow>
      mset (abnormal emit sel coll) = mset (map project (filter (abnormal_query sel) coll))" for sel
    using assms by (blast intro: abnormal_complete)
  have 3: "pm25 d = Some 101 \<longrightarrow> abnormal_readings emit [d] = [project d]"
    using assms by (simp add: abnormal_single abnormal_match_iff)
  have 4: "pm25 d = Some 100 \<and> (\<forall>n. noise_db d = Some n \<longrightarrow> n \<le> 85)
            \<and> (\<forall>n. traffic_count d = Some n \<longrightarrow> n \<le> 150) \<longrightarrow>
            abnormal_readings emit [d] = []"
    using assms by (auto simp: abnormal_single abnormal_match_iff)
  have 5: "set (abnormal_readings emit coll) \<subseteq> project ` {d \<in> set coll. abnormal_match d}"
    using 1 [of "[]"] by (simp add: abnormal_readings_abnormal abnormal_query_Nil)
  have 6: "length (filter abnormal_match coll) \<le> 1000 \<longrightarrow>
      mset (abnormal_readings emit coll) = mset (map project (filter abnormal_match coll))"
    using 2 [of "[]"] by (simp add: abnormal_readings_abnormal abnormal_query_Nil)
  show ?thesis
    using 1 [of sel] 2 [of sel] 3 4 5 6 unfolding q m by blast
qed

theorem abnormal_readings_threshold_disjunction_witness:
  "rearranges (id :: reading list \<Rightarrow> reading list)
   \<and> length (filter abnormal_match [doc_park, doc_city]) \<le> 1000
   \<and> pm25 doc_park = Some 101
   \<and> pm25 doc_city = Some 100 \<and> noise_db doc_city = Some 10 \<and> traffic_count doc_city = Some 10
   \<and> mset (abnormal_readings id [doc_park, doc_city]) = {#project doc_park#}
   \<and> abnormal_readings id [doc_park] = [project doc_park]
   \<and> abnormal_readings id [doc_city] = []"
  using abnormal_readings_threshold_disjunction
    [OF rearranges_id, of "[doc_park, doc_city]" "[]" doc_park]
    abnormal_readings_threshold_disjunction
    [OF rearranges_id, of "[doc_park, doc_city]" "[]" doc_city]
  by (simp add: rearranges_id doc_park_def doc_city_def abnormal_match_def)

text \<open>
  C2. \<^verbatim>\<open>get_abnormal_count\<close> returns the number of all readings that match the abnormal
  predicate and the filter, without a cap. The listing has at most 1000 rows, ascending
  by timestamp, and no qualifying reading left out is earlier than a row listed. With
  1500 qualifying readings the count is 1500 and the listing has 1000 rows.
\<close>

theorem abnormal_count_uncapped_listing_capped:
  assumes "rearranges emit"
  shows "get_abnormal_count sel coll = int (length (filter (abnormal_query sel) coll))
       \<and> length (abnormal emit sel coll) = min 1000 (length (filter (abnormal_query sel) coll))
       \<and> length (abnormal_readings emit coll) = min 1000 (length (filter abnormal_match coll))
       \<and> sorted (map timestamp (abnormal emit sel coll))
       \<and> mset (abnormal emit sel coll) \<subseteq># mset (map project (filter (abnormal_query sel) coll))
       \<and> (\<forall>l \<in> set (abnormal emit sel coll).
            \<forall>r \<in># mset (map project (filter (abnormal_query sel) coll))
                  - mset (abnormal emit sel coll).
              timestamp l \<le> timestamp r)
       \<and> (length (filter (abnormal_query sel) coll) = 1500 \<longrightarrow>
            get_abnormal_count sel coll = 1500 \<and> length (abnormal emit sel coll) = 1000)"
proof -
  have "length (abnormal_readings emit coll) = min 1000 (length (filter abnormal_match coll))"
    using abnormal_length [OF assms, of "[]" coll]
    by (simp add: abnormal_readings_abnormal abnormal_query_Nil)
  then show ?thesis
    using abnormal_earliest [OF assms, of sel coll] abnormal_length [OF assms, of sel coll]
    by (simp add: get_abnormal_count_length abnormal_sorted)
qed

theorem abnormal_count_uncapped_listing_capped_witness:
  "rearranges (id :: reading list \<Rightarrow> reading list)
   \<and> length (filter (abnormal_query []) (map (\<lambda>i. doc_park\<lparr>oid := i\<rparr>) [0..<1500])) = 1500
   \<and> get_abnormal_count [] (map (\<lambda>i. doc_park\<lparr>oid := i\<rparr>) [0..<1500]) = 1500
   \<and> length (abnormal id [] (map (\<lambda>i. doc_park\<lparr>oid := i\<rparr>) [0..<1500])) = 1000"
proof -
  have "filter (abnormal_query []) (map (\<lambda>i. doc_park\<lparr>oid := i\<rparr>) [0..<1500]) =
          map (\<lambda>i. doc_park\<lparr>oid := i\<rparr>) [0..<1500]"
    by (rule filter_True)
       (auto simp: abnormal_query_def abnormal_match_def doc_park_def filter_query_def)
  then have n: "length (filter (abnormal_query []) (map (\<lambda>i. doc_park\<lparr>oid := i\<rparr>) [0..<1500])) = 1500"
    by simp
  show ?thesis
    using abnormal_count_uncapped_listing_capped
      [OF rearranges_id, of "[]" "map (\<lambda>i. doc_park\<lparr>oid := i\<rparr>) [0..<1500]"] n
    by (simp add: rearranges_id)
qed

text \<open>
  C10. \<^verbatim>\<open>get_abnormal_count\<close> returns an integer that is never negative, the number of
  qualifying readings, and the integer 0 when no reading qualifies; for an empty
  filtered population it returns 0 where \<^verbatim>\<open>get_avg_pm25\<close> returns \<open>None\<close>.
\<close>

theorem abnormal_count_zero_nonneg:
  "get_abnormal_count sel coll = int (length (filter (abnormal_query sel) coll))
   \<and> 0 \<le> get_abnormal_count sel coll
   \<and> (filter (abnormal_query sel) coll = [] \<longrightarrow> get_abnormal_count sel coll = 0)
   \<and> (filter (matches (filter_query sel)) coll = [] \<longrightarrow>
        get_abnormal_count sel coll = 0 \<and> get_avg_pm25 avg2 sel coll = None)"
proof -
  have "filter (matches (filter_query sel)) coll = [] \<longrightarrow> filter (abnormal_query sel) coll = []"
    by (auto simp: filter_empty_conv abnormal_query_def)
  moreover have "filter (matches (filter_query sel)) coll = [] \<longrightarrow>
      get_avg_pm25 avg2 sel coll = None"
    by (auto simp: get_avg_pm25_def match_filter_def group_all_def filter_query_def)
  ultimately show ?thesis
    by (auto simp: get_abnormal_count_length)
qed

theorem abnormal_count_zero_nonneg_witness:
  "filter (abnormal_query []) [doc_city] = []
   \<and> get_abnormal_count [] [doc_city] = 0
   \<and> filter (matches (filter_query [''Harbour''])) [doc_city] = []
   \<and> get_abnormal_count [''Harbour''] [doc_city] = 0
   \<and> get_avg_pm25 example_avg2 [''Harbour''] [doc_city] = None"
  using abnormal_count_zero_nonneg [of "[]" "[doc_city]" example_avg2]
    abnormal_count_zero_nonneg [of "[''Harbour'']" "[doc_city]" example_avg2]
  by (simp add: abnormal_query_def abnormal_match_def filter_query_def doc_city_def)

section \<open>Timestamps that do not convert\<close>

lemma add_ts_fails_iff:
  "add_ts to_date ds = Inl OperationFailure \<longleftrightarrow> (\<exists>d \<in> set ds. to_date (timestamp d) = None)"
  by (induction ds) (auto split: option.splits sum.splits)

lemma add_ts_Inr:
  assumes "\<forall>d \<in> set ds. to_date (timestamp d) \<noteq> None"
  shows "add_ts to_date ds = Inr (map (\<lambda>d. (d, the (to_date (timestamp d)))) ds)"
  using assms by (induction ds) (auto split: option.splits sum.splits)

lemma add_ts_cases:
  "add_ts to_date ds = Inl OperationFailure \<or> (\<exists>r. add_ts to_date ds = Inr r)"
  by (cases "add_ts to_date ds") (auto intro: error.exhaust)

lemma match_filter_filter: "match_filter q ds = filter (matches q) ds"
  by (cases q) (simp_all add: match_filter_def)

lemma filter_query_Nil_eq: "filter (matches (filter_query [])) ds = ds"
  by (simp add: filter_query_Nil)

lemma traffic_density_fails_iff:
  "traffic_density_by_hour emit to_date avg2 coll = Inl OperationFailure
     \<longleftrightarrow> (\<exists>d \<in> set coll. to_date (timestamp d) = None)"
  using add_ts_cases [of to_date coll]
  by (auto simp: traffic_density_by_hour_def simp flip: add_ts_fails_iff)

lemma traffic_by_hour_fails_iff:
  "traffic_by_hour emit to_date avg2 sel coll = Inl OperationFailure
     \<longleftrightarrow> (\<exists>d \<in> set coll. matches (filter_query sel) d \<and> to_date (timestamp d) = None)"
  using add_ts_cases [of to_date "filter (matches (filter_query sel)) coll"]
    add_ts_fails_iff [of to_date "filter (matches (filter_query sel)) coll"]
  by (auto simp: traffic_by_hour_def)

lemma get_peak_traffic_hour_fails_iff:
  "get_peak_traffic_hour emit to_date avg2 sel coll = Inl OperationFailure
     \<longleftrightarrow> (\<exists>d \<in> set coll. matches (filter_query sel) d \<and> to_date (timestamp d) = None)"
  using add_ts_cases [of to_date "filter (matches (filter_query sel)) coll"]
    add_ts_fails_iff [of to_date "filter (matches (filter_query sel)) coll"]
  by (auto simp: get_peak_traffic_hour_def match_filter_filter)

text \<open>
  C3, as the code has it. A reading whose timestamp string does not convert to a date
  makes the hourly traffic-density aggregation fail as a whole, and the pipeline of the
  dashboard and the peak-traffic-hour KPI likewise when that reading passes the area
  filter; the operations return a result exactly when every reading they process has a
  timestamp that converts.
\<close>

theorem unparsable_timestamp_fails_aggregation:
  "(traffic_density_by_hour emit to_date avg2 coll = Inl OperationFailure
      \<longleftrightarrow> (\<exists>d \<in> set coll. to_date (timestamp d) = None))
   \<and> (traffic_by_hour emit to_date avg2 sel coll = Inl OperationFailure
      \<longleftrightarrow> (\<exists>d \<in> set coll. matches (filter_query sel) d \<and> to_date (timestamp d) = None))
   \<and> (get_peak_traffic_hour emit' to_date avg2' sel coll = Inl OperationFailure
      \<longleftrightarrow> (\<exists>d \<in> set coll. matches (filter_query sel) d \<and> to_date (timestamp d) = None))"
  by (simp only: traffic_density_fails_iff traffic_by_hour_fails_iff
        get_peak_traffic_hour_fails_iff)

theorem unparsable_timestamp_fails_aggregation_witness:
  "doc_bad_ts \<in> set [doc_park, doc_bad_ts]
   \<and> matches (filter_query []) doc_bad_ts
   \<and> example_to_date (timestamp doc_bad_ts) = None
   \<and> traffic_density_by_hour id example_to_date example_avg2 [doc_park, doc_bad_ts]
       = Inl OperationFailure
   \<and> traffic_by_hour id example_to_date example_avg2 [] [doc_park, doc_bad_ts]
       = Inl OperationFailure
   \<and> get_peak_traffic_hour id example_to_date example_avg2 [] [doc_park, doc_bad_ts]
       = Inl OperationFailure"
  using unparsable_timestamp_fails_aggregation
    [of id example_to_date example_avg2 "[doc_park, doc_bad_ts]" "[]" id example_avg2]
  by (simp add: doc_bad_ts_def doc_park_def example_to_date_def filter_query_def)

text \<open>
  C3 as stated fails: with the reading \<open>doc_bad_ts\<close> in the collection, the aggregation and
  the KPI do not return what they return for the remaining reading, but fail.
\<close>

theorem unparsable_timestamp_counterexample:
  "traffic_density_by_hour id example_to_date example_avg2 [doc_park] = Inr [(8, Some 1000)]
   \<and> traffic_density_by_hour id example_to_date example_avg2 [doc_park, doc_bad_ts]
       = Inl OperationFailure
   \<and> get_peak_traffic_hour id example_to_date example_avg2 [] [doc_park]
       = Inr (Some 8, Some 1000)
   \<and> get_peak_traffic_hour id example_to_date example_avg2 [] [doc_park, doc_bad_ts]
       = Inl OperationFailure"
  by (simp add: traffic_density_by_hour_def get_peak_traffic_hour_def match_filter_def
        filter_query_def group_stage_def sort_asc_def sort_desc_def avg_round_def present_def
        hour_def example_to_date_def example_avg2_def doc_park_def doc_bad_ts_def)

section \<open>The filter of a refresh\<close>

lemma abnormal_query_population:
  "filter (abnormal_query sel) coll =
     filter (abnormal_query []) (filter (matches (filter_query sel)) coll)"
  by (rule filter_cong [OF refl, THEN trans, OF _ filter_filter [symmetric]])
     (simp add: abnormal_query_def filter_query_Nil conj_commute)

lemma area_pm_population:
  "area_pm emit avg2 sel coll = area_pm emit avg2 [] (filter (matches (filter_query sel)) coll)"
  by (simp add: area_pm_def filter_query_Nil)

lemma noise_by_area_population:
  "noise_by_area emit avg2 sel coll =
     noise_by_area emit avg2 [] (filter (matches (filter_query sel)) coll)"
  by (simp add: noise_by_area_def filter_query_Nil)

lemma traffic_by_hour_population:
  "traffic_by_hour emit to_date avg2 sel coll =
     traffic_by_hour emit to_date avg2 [] (filter (matches (filter_query sel)) coll)"
  by (simp add: traffic_by_hour_def filter_query_Nil)

lemma abnormal_population:
  "abnormal emit sel coll = abnormal emit [] (filter (matches (filter_query sel)) coll)"
  unfolding abnormal_def by (subst abnormal_query_population) (rule refl)

lemma get_avg_pm25_population:
  "get_avg_pm25 avg2 sel coll =
     get_avg_pm25 avg2 [] (filter (matches (filter_query sel)) coll)"
  by (simp add: get_avg_pm25_def match_filter_filter filter_query_Nil)

lemma get_worst_pollution_area_population:
  "get_worst_pollution_area emit avg2 sel coll =
     get_worst_pollution_area emit avg2 [] (filter (matches (filter_query sel)) coll)"
  by (simp add: get_worst_pollution_area_def match_filter_filter filter_query_Nil)

lemma get_peak_traffic_hour_population:
  "get_peak_traffic_hour emit to_date avg2 sel coll =
     get_peak_traffic_hour emit to_date avg2 [] (filter (matches (filter_query sel)) coll)"
  by (simp add: get_peak_traffic_hour_def match_filter_filter filter_query_Nil)

lemma get_noisiest_area_population:
  "get_noisiest_area emit avg2 sel coll =
     get_noisiest_area emit avg2 [] (filter (matches (filter_query sel)) coll)"
  by (simp add: get_noisiest_area_def match_filter_filter filter_query_Nil)

lemma get_abnormal_count_population:
  "get_abnormal_count sel coll =
     get_abnormal_count [] (filter (matches (filter_query sel)) coll)"
  unfolding get_abnormal_count_def by (subst abnormal_query_population) (rule refl)

lemma population_all:
  assumes "area ` set coll \<subseteq> set sel"
  shows "filter (matches (filter_query sel)) coll = coll"
proof (rule filter_True)
  show "\<forall>d \<in> set coll. matches (filter_query sel) d"
    using assms by (auto simp: filter_query_def)
qed

text \<open>
  C5. Within a refresh every result collection and every KPI applies the one filter
  document built from the selection: each of the nine, computed with the selection on
  the collection, is the same computation without a selection on the one filtered
  population.
\<close>

theorem refresh_uses_one_population:
  "area_pm emit avg2 sel coll =
     area_pm emit avg2 [] (filter (matches (filter_query sel)) coll)
   \<and> noise_by_area emit avg2 sel coll =
     noise_by_area emit avg2 [] (filter (matches (filter_query sel)) coll)
   \<and> traffic_by_hour emit_h to_date avg2 sel coll =
     traffic_by_hour emit_h to_date avg2 [] (filter (matches (filter_query sel)) coll)
   \<and> abnormal emit_r sel coll =
     abnormal emit_r [] (filter (matches (filter_query sel)) coll)
   \<and> get_avg_pm25 avg2 sel coll =
     get_avg_pm25 avg2 [] (filter (matches (filter_query sel)) coll)
   \<and> get_worst_pollution_area emit avg2 sel coll =
     get_worst_pollution_area emit avg2 [] (filter (matches (filter_query sel)) coll)
   \<and> get_peak_traffic_hour emit_h to_date avg2 sel coll =
     get_peak_traffic_hour emit_h to_date avg2 [] (filter (matches (filter_query sel)) coll)
   \<and> get_noisiest_area emit avg2 sel coll =
     get_noisiest_area emit avg2 [] (filter (matches (filter_query sel)) coll)
   \<and> get_abnormal_count sel coll =
     get_abnormal_count [] (filter (matches (filter_query sel)) coll)
   \<and> filter (matches (filter_query [])) (filter (matches (filter_query sel)) coll) =
     filter (matches (filter_query sel)) coll"
  by (intro conjI area_pm_population noise_by_area_population traffic_by_hour_population
        abnormal_population get_avg_pm25_population get_worst_pollution_area_population
        get_peak_traffic_hour_population get_noisiest_area_population
        get_abnormal_count_population filter_query_Nil_eq)

theorem refresh_uses_one_population_witness:
  "filter (matches (filter_query [''Park Area''])) [doc_park, doc_city, doc_no_pm25]
     = [doc_park, doc_no_pm25]
   \<and> area_pm id example_avg2 [''Park Area''] [doc_park, doc_city, doc_no_pm25]
     = area_pm id example_avg2 [] [doc_park, doc_no_pm25]
   \<and> get_avg_pm25 example_avg2 [''Park Area''] [doc_park, doc_city, doc_no_pm25]
     = get_avg_pm25 example_avg2 [] [doc_park, doc_no_pm25]
   \<and> get_abnormal_count [''Park Area''] [doc_park, doc_city, doc_no_pm25]
     = get_abnormal_count [] [doc_park, doc_no_pm25]"
proof -
  have p: "filter (matches (filter_query [''Park Area''])) [doc_park, doc_city, doc_no_pm25]
     = [doc_park, doc_no_pm25]"
    by (simp add: filter_query_def doc_park_def doc_city_def doc_no_pm25_def)
  show ?thesis
    using refresh_uses_one_population
      [of id example_avg2 "[''Park Area'']" "[doc_park, doc_city, doc_no_pm25]"]
    unfolding p by simp
qed

text \<open>
  C7. The filter built from the empty selection matches every reading, and every result
  collection and KPI computed under the empty selection equals the one computed under a
  selection that contains every area present in the collection.
\<close>

theorem empty_selection_is_select_all:
  assumes "area ` set coll \<subseteq> set sel"
  shows "(\<forall>d :: document. matches (filter_query []) d)
   \<and> area_pm emit avg2 [] coll = area_pm emit avg2 sel coll
   \<and> noise_by_area emit avg2 [] coll = noise_by_area emit avg2 sel coll
   \<and> traffic_by_hour emit_h to_date avg2 [] coll = traffic_by_hour emit_h to_date avg2 sel coll
   \<and> abnormal emit_r [] coll = abnormal emit_r sel coll
   \<and> get_avg_pm25 avg2 [] coll = get_avg_pm25 avg2 sel coll
   \<and> get_worst_pollution_area emit avg2 [] coll = get_worst_pollution_area emit avg2 sel coll
   \<and> get_peak_traffic_hour emit_h to_date avg2 [] coll =
       get_peak_traffic_hour emit_h to_date avg2 sel coll
   \<and> get_noisiest_area emit avg2 [] coll = get_noisiest_area emit avg2 sel coll
   \<and> get_abnormal_count [] coll = get_abnormal_count sel coll"
proof -
  note p = population_all [OF assms]
  have "area_pm emit avg2 [] coll = area_pm emit avg2 sel coll"
    by (subst (2) area_pm_population) (simp only: p)
  moreover have "noise_by_area emit avg2 [] coll = noise_by_area emit avg2 sel coll"
    by (subst (2) noise_by_area_population) (simp only: p)
  moreover have "traffic_by_hour emit_h to_date avg2 [] coll =
      traffic_by_hour emit_h to_date avg2 sel coll"
    by (subst (2) traffic_by_hour_population) (simp only: p)
  moreover have "abnormal emit_r [] coll = abnormal emit_r sel coll"
    by (subst (2) abnormal_population) (simp only: p)
  moreover have "get_avg_pm25 avg2 [] coll = get_avg_pm25 avg2 sel coll"
    by (subst (2) get_avg_pm25_population) (simp only: p)
  moreover have "get_worst_pollution_area emit avg2 [] coll =
      get_worst_pollution_area emit avg2 sel coll"
    by (subst (2) get_worst_pollution_area_population) (simp only: p)
  moreover have "get_peak_traffic_hour emit_h to_date avg2 [] coll =
       get_peak_traffic_hour emit_h to_date avg2 sel coll"
    by (subst (2) get_peak_traffic_hour_population) (simp only: p)
  moreover have "get_noisiest_area emit avg2 [] coll = get_noisiest_area emit avg2 sel coll"
    by (subst (2) get_noisiest_area_population) (simp only: p)
  moreover have "get_abnormal_count [] coll = get_abnormal_count sel coll"
    by (subst (2) get_abnormal_count_population) (simp only: p)
  ultimately show ?thesis
    by (simp add: filter_query_Nil)
qed

theorem empty_selection_is_select_all_witness:
  "area ` set [doc_park, doc_city] \<subseteq> set [''City Center'', ''Park Area'']
   \<and> area_pm id example_avg2 [] [doc_park, doc_city]
     = area_pm id example_avg2 [''City Center'', ''Park Area''] [doc_park, doc_city]
   \<and> get_worst_pollution_area id example_avg2 [] [doc_park, doc_city]
     = get_worst_pollution_area id example_avg2 [''City Center'', ''Park Area'']
         [doc_park, doc_city]
   \<and> get_abnormal_count [] [doc_park, doc_city]
     = get_abnormal_count [''City Center'', ''Park Area''] [doc_park, doc_city]"
proof -
  have h: "area ` set [doc_park, doc_city] \<subseteq> set [''City Center'', ''Park Area'']"
    by (simp add: doc_park_def doc_city_def)
  show ?thesis
    using h empty_selection_is_select_all [OF h, of id example_avg2] by simp
qed

section \<open>An empty population\<close>

lemma group_stage_Nil: "rearranges emit \<Longrightarrow> group_stage emit key acc [] = []"
  by (simp add: group_stage_def rearranges_Nil)

lemma sort_desc_Nil: "sort_desc key [] = []"
  by (simp add: sort_desc_def)

lemma area_pm_empty:
  assumes "rearranges emit" "filter (matches (filter_query sel)) coll = []"
  shows "area_pm emit avg2 sel coll = []"
  using assms by (simp add: area_pm_def group_stage_Nil)

lemma noise_by_area_empty:
  assumes "rearranges emit" "filter (matches (filter_query sel)) coll = []"
  shows "noise_by_area emit avg2 sel coll = []"
  using assms by (simp add: noise_by_area_def group_stage_Nil)

lemma traffic_by_hour_empty:
  assumes "rearranges emit" "filter (matches (filter_query sel)) coll = []"
  shows "traffic_by_hour emit to_date avg2 sel coll = Inr []"
  using assms by (simp add: traffic_by_hour_def group_stage_Nil)

lemma abnormal_empty:
  assumes "rearranges emit" "filter (matches (filter_query sel)) coll = []"
  shows "abnormal emit sel coll = []"
proof -
  have "filter (abnormal_query sel) coll = []"
    using assms(2) by (simp add: abnormal_query_population)
  then show ?thesis
    using assms(1) by (simp add: abnormal_def sort_asc_def rearranges_Nil)
qed

lemma get_avg_pm25_empty:
  assumes "filter (matches (filter_query sel)) coll = []"
  shows "get_avg_pm25 avg2 sel coll = None"
  using assms by (simp add: get_avg_pm25_def match_filter_filter group_all_def)

lemma get_worst_pollution_area_empty:
  assumes "rearranges emit" "filter (matches (filter_query sel)) coll = []"
  shows "get_worst_pollution_area emit avg2 sel coll = (None, None)"
  using assms
  by (simp add: get_worst_pollution_area_def match_filter_filter group_stage_Nil sort_desc_Nil)

lemma get_peak_traffic_hour_empty:
  assumes "rearranges emit" "filter (matches (filter_query sel)) coll = []"
  shows "get_peak_traffic_hour emit to_date avg2 sel coll = Inr (None, None)"
  using assms
  by (simp add: get_peak_traffic_hour_def match_filter_filter group_stage_Nil sort_desc_Nil)

lemma get_noisiest_area_empty:
  assumes "rearranges emit" "filter (matches (filter_query sel)) coll = []"
  shows "get_noisiest_area emit avg2 sel coll = (None, None)"
  using assms
  by (simp add: get_noisiest_area_def match_filter_filter group_stage_Nil sort_desc_Nil)

text \<open>
  C6. When no reading passes the filter, the four result collections are empty (the
  hourly one is returned, not an error), \<^verbatim>\<open>get_avg_pm25\<close> returns \<open>None\<close> and the three top-1
  KPIs return the pair \<open>(None, None)\<close>; none of them fails. The operations of
  \<^verbatim>\<open>analysis.py\<close> return empty lists on the empty collection.
\<close>

theorem empty_population_no_data:
  assumes "rearranges emit" "rearranges emit_h" "rearranges emit_r"
    and "filter (matches (filter_query sel)) coll = []"
  shows "area_pm emit avg2 sel coll = []
   \<and> noise_by_area emit avg2 sel coll = []
   \<and> traffic_by_hour emit_h to_date avg2 sel coll = Inr []
   \<and> abnormal emit_r sel coll = []
   \<and> get_avg_pm25 avg2 sel coll = None
   \<and> get_worst_pollution_area emit avg2 sel coll = (None, None)
   \<and> get_peak_traffic_hour emit_h to_date avg2 sel coll = Inr (None, None)
   \<and> get_noisiest_area emit avg2 sel coll = (None, None)
   \<and> area_wise_avg_pm25 emit avg2 [] = []
   \<and> avg_noise_by_area emit avg2 [] = []
   \<and> traffic_density_by_hour emit_h to_date avg2 [] = Inr []
   \<and> abnormal_readings emit_r [] = []"
proof -
  have "area_wise_avg_pm25 emit avg2 [] = []" "avg_noise_by_area emit avg2 [] = []"
    using assms(1)
    by (simp_all add: area_wise_avg_pm25_def avg_noise_by_area_def group_stage_Nil sort_asc_def)
  moreover have "traffic_density_by_hour emit_h to_date avg2 [] = Inr []"
    using assms(2) by (simp add: traffic_density_by_hour_def group_stage_Nil sort_asc_def)
  moreover have "abnormal_readings emit_r [] = []"
    using assms(3) by (simp add: abnormal_readings_def rearranges_Nil sort_asc_def)
  ultimately show ?thesis
    using assms
    by (simp add: area_pm_empty noise_by_area_empty traffic_by_hour_empty abnormal_empty
          get_avg_pm25_empty get_worst_pollution_area_empty get_peak_traffic_hour_empty
          get_noisiest_area_empty)
qed

theorem empty_population_no_data_witness:
  "rearranges (id :: (string \<times> int option) list \<Rightarrow> (string \<times> int option) list)
   \<and> rearranges (id :: (nat \<times> int option) list \<Rightarrow> (nat \<times> int option) list)
   \<and> rearranges (id :: reading list \<Rightarrow> reading list)
   \<and> filter (matches (filter_query [''Harbour''])) [doc_park, doc_bad_ts] = []
   \<and> area_pm id example_avg2 [''Harbour''] [doc_park, doc_bad_ts] = []
   \<and> traffic_by_hour id example_to_date example_avg2 [''Harbour''] [doc_park, doc_bad_ts]
       = Inr []
   \<and> get_avg_pm25 example_avg2 [''Harbour''] [doc_park, doc_bad_ts] = None
   \<and> get_worst_pollution_area id example_avg2 [''Harbour''] [doc_park, doc_bad_ts]
       = (None, None)
   \<and> get_peak_traffic_hour id example_to_date example_avg2 [''Harbour'']
        [doc_park, doc_bad_ts] = Inr (None, None)
   \<and> get_noisiest_area id example_avg2 [''Harbour''] [doc_park, doc_bad_ts] = (None, None)"
proof -
  have h: "filter (matches (filter_query [''Harbour''])) [doc_park, doc_bad_ts] = []"
    by (simp add: filter_query_def doc_park_def doc_bad_ts_def)
  show ?thesis
    using h empty_population_no_data [OF rearranges_id rearranges_id rearranges_id h,
        of example_avg2 example_to_date]
    by (simp add: rearranges_id)
qed

section \<open>One row per area and per hour\<close>

lemma hour_less_24: "hour t < 24"
  by (simp add: hour_def nat_less_iff)

lemma keys_sort_group_stage:
  assumes "rearranges emit"
  shows "map fst (sort_asc fst (group_stage emit key acc ds)) =
           sorted_list_of_set (key ` set ds)"
  by (simp add: sort_group_stage [OF assms] comp_def)

lemma area_keys_sorted:
  assumes "rearranges emit"
  shows "sorted (map fst (sort_asc fst (group_stage emit key acc ds)))
       \<and> distinct (map fst (sort_asc fst (group_stage emit key acc ds)))
       \<and> set (map fst (sort_asc fst (group_stage emit key acc ds))) = key ` set ds"
  unfolding keys_sort_group_stage [OF assms] by simp

lemma hour_keys:
  assumes "\<forall>d \<in> set ds. to_date (timestamp d) \<noteq> None"
  shows "(\<lambda>(d, ts). hour ts) ` set (map (\<lambda>d. (d, the (to_date (timestamp d)))) ds) =
           {h. \<exists>d \<in> set ds. \<exists>t. to_date (timestamp d) = Some t \<and> hour t = h}"
  using assms by force

lemma traffic_density_rows:
  assumes "rearranges emit" and ok: "\<forall>d \<in> set coll. to_date (timestamp d) \<noteq> None"
  shows "\<exists>rows. traffic_density_by_hour emit to_date avg2 coll = Inr rows
           \<and> sorted (map fst rows) \<and> distinct (map fst rows)
           \<and> set (map fst rows) =
                {h. \<exists>d \<in> set coll. \<exists>t. to_date (timestamp d) = Some t \<and> hour t = h}
           \<and> (\<forall>h \<in> set (map fst rows). h < 24)"
proof -
  let ?ds = "map (\<lambda>d. (d, the (to_date (timestamp d)))) coll"
  let ?rows = "sort_asc fst (group_stage emit (\<lambda>(d, ts). hour ts)
                    (\<lambda>g. avg_round avg2 (map (\<lambda>(d, ts). traffic_count d) g)) ?ds)"
  have r: "traffic_density_by_hour emit to_date avg2 coll = Inr ?rows"
    by (simp add: traffic_density_by_hour_def add_ts_Inr [OF ok])
  have k: "sorted (map fst ?rows) \<and> distinct (map fst ?rows)
       \<and> set (map fst ?rows) = (\<lambda>(d, ts). hour ts) ` set ?ds"
    using assms(1) by (rule area_keys_sorted)
  have s: "set (map fst ?rows) =
      {h. \<exists>d \<in> set coll. \<exists>t. to_date (timestamp d) = Some t \<and> hour t = h}"
    using k hour_keys [OF ok] by simp
  have "\<forall>h \<in> set (map fst ?rows). h < 24"
    unfolding s using hour_less_24 by auto
  with r k s show ?thesis by (intro exI [of _ ?rows]) simp
qed

lemma traffic_by_hour_rows:
  assumes "rearranges emit"
    and ok: "\<forall>d \<in> set coll. matches (filter_query sel) d \<longrightarrow> to_date (timestamp d) \<noteq> None"
  shows "\<exists>rows. traffic_by_hour emit to_date avg2 sel coll = Inr rows
           \<and> distinct (map fst rows)
           \<and> set (map fst rows) =
                {h. \<exists>d \<in> set coll. matches (filter_query sel) d
                      \<and> (\<exists>t. to_date (timestamp d) = Some t \<and> hour t = h)}"
proof -
  let ?pop = "filter (matches (filter_query sel)) coll"
  let ?ds = "map (\<lambda>d. (d, the (to_date (timestamp d)))) ?pop"
  let ?rows = "group_stage emit (\<lambda>(d, ts). hour ts)
                    (\<lambda>g. avg_round avg2 (map (\<lambda>(d, ts). traffic_count d) g)) ?ds"
  have ok': "\<forall>d \<in> set ?pop. to_date (timestamp d) \<noteq> None"
    using ok by simp
  have r: "traffic_by_hour emit to_date avg2 sel coll = Inr ?rows"
    by (simp add: traffic_by_hour_def add_ts_Inr [OF ok'])
  have "set (map fst ?rows) = (\<lambda>(d, ts). hour ts) ` set ?ds"
    using assms(1) by (rule keys_group_stage)
  then have "set (map fst ?rows) =
      {h. \<exists>d \<in> set ?pop. \<exists>t. to_date (timestamp d) = Some t \<and> hour t = h}"
    using hour_keys [OF ok'] by simp
  then have s: "set (map fst ?rows) =
      {h. \<exists>d \<in> set coll. matches (filter_query sel) d
                      \<and> (\<exists>t. to_date (timestamp d) = Some t \<and> hour t = h)}"
    by auto
  have "distinct (map fst ?rows)"
    using assms(1) by (rule distinct_group_stage)
  with r s show ?thesis by (intro exI [of _ ?rows]) simp
qed

lemma sort_desc_descending: "sorted (rev (map key (sort_desc key xs)))"
  by (simp add: sort_desc_def rev_map)

lemma mset_sort_desc: "mset (sort_desc key xs) = mset xs"
  by (simp add: sort_desc_def)

text \<open>
  C4, as the code has it. The area operations of \<^verbatim>\<open>analysis.py\<close> return exactly one row per
  area of the collection, ascending by area name, and its hourly operation, when every
  timestamp converts, exactly one row per hour (below 24) of a reading, ascending by
  hour. The filtered pipelines of the dashboard return exactly one row per area, or
  hour, that has a reading passing the filter, and none for any other; they have no sort
  stage, so the rows come in the order the store emits them, and the dashboard then
  ranks the area rows by their metric, descending.
\<close>

theorem area_and_hour_rows:
  assumes "rearranges emit" "rearranges emit_h"
  shows "sorted (map fst (area_wise_avg_pm25 emit avg2 coll))
       \<and> distinct (map fst (area_wise_avg_pm25 emit avg2 coll))
       \<and> set (map fst (area_wise_avg_pm25 emit avg2 coll)) = area ` set coll
       \<and> sorted (map fst (avg_noise_by_area emit avg2 coll))
       \<and> distinct (map fst (avg_noise_by_area emit avg2 coll))
       \<and> set (map fst (avg_noise_by_area emit avg2 coll)) = area ` set coll
       \<and> ((\<forall>d \<in> set coll. to_date (timestamp d) \<noteq> None) \<longrightarrow>
            (\<exists>rows. traffic_density_by_hour emit_h to_date avg2 coll = Inr rows
               \<and> sorted (map fst rows) \<and> distinct (map fst rows)
               \<and> set (map fst rows) =
                    {h. \<exists>d \<in> set coll. \<exists>t. to_date (timestamp d) = Some t \<and> hour t = h}
               \<and> (\<forall>h \<in> set (map fst rows). h < 24)))
       \<and> distinct (map fst (area_pm emit avg2 sel coll))
       \<and> set (map fst (area_pm emit avg2 sel coll)) =
            area ` {d \<in> set coll. matches (filter_query sel) d}
       \<and> distinct (map fst (noise_by_area emit avg2 sel coll))
       \<and> set (map fst (noise_by_area emit avg2 sel coll)) =
            area ` {d \<in> set coll. matches (filter_query sel) d}
       \<and> ((\<forall>d \<in> set coll. matches (filter_query sel) d \<longrightarrow> to_date (timestamp d) \<noteq> None) \<longrightarrow>
            (\<exists>rows. traffic_by_hour emit_h to_date avg2 sel coll = Inr rows
               \<and> distinct (map fst rows)
               \<and> set (map fst rows) =
                    {h. \<exists>d \<in> set coll. matches (filter_query sel) d
                          \<and> (\<exists>t. to_date (timestamp d) = Some t \<and> hour t = h)}))
       \<and> sorted (rev (map snd (df_pm emit avg2 sel coll)))
       \<and> mset (df_pm emit avg2 sel coll) = mset (area_pm emit avg2 sel coll)
       \<and> sorted (rev (map snd (df_noise emit avg2 sel coll)))
       \<and> mset (df_noise emit avg2 sel coll) = mset (noise_by_area emit avg2 sel coll)"
proof -
  have f: "sorted (rev (map snd (df_pm emit avg2 sel coll)))"
    "mset (df_pm emit avg2 sel coll) = mset (area_pm emit avg2 sel coll)"
    "sorted (rev (map snd (df_noise emit avg2 sel coll)))"
    "mset (df_noise emit avg2 sel coll) = mset (noise_by_area emit avg2 sel coll)"
    unfolding df_pm_def df_noise_def by (rule sort_desc_descending mset_sort_desc)+
  have a: "sorted (map fst (area_wise_avg_pm25 emit avg2 coll))"
    "distinct (map fst (area_wise_avg_pm25 emit avg2 coll))"
    "set (map fst (area_wise_avg_pm25 emit avg2 coll)) = area ` set coll"
    unfolding area_wise_avg_pm25_def using area_keys_sorted [OF assms(1)] by blast+
  have b: "sorted (map fst (avg_noise_by_area emit avg2 coll))"
    "distinct (map fst (avg_noise_by_area emit avg2 coll))"
    "set (map fst (avg_noise_by_area emit avg2 coll)) = area ` set coll"
    unfolding avg_noise_by_area_def using area_keys_sorted [OF assms(1)] by blast+
  have c: "distinct (map fst (area_pm emit avg2 sel coll))"
    "distinct (map fst (noise_by_area emit avg2 sel coll))"
    unfolding area_pm_def noise_by_area_def
    using assms(1) by (rule distinct_group_stage)+
  have d: "set (map fst (area_pm emit avg2 sel coll)) =
            area ` {d \<in> set coll. matches (filter_query sel) d}"
    unfolding area_pm_def keys_group_stage [OF assms(1)] by simp
  have e: "set (map fst (noise_by_area emit avg2 sel coll)) =
            area ` {d \<in> set coll. matches (filter_query sel) d}"
    unfolding noise_by_area_def keys_group_stage [OF assms(1)] by simp
  show ?thesis
    by (intro conjI impI; (rule a b c d e f traffic_density_rows [OF assms(2)]
          traffic_by_hour_rows [OF assms(2)]))
qed


theorem area_and_hour_rows_witness:
  "rearranges (id :: (string \<times> int option) list \<Rightarrow> (string \<times> int option) list)
   \<and> rearranges (id :: (nat \<times> int option) list \<Rightarrow> (nat \<times> int option) list)
   \<and> example_to_date (timestamp doc_park) = Some 1704097800000
   \<and> example_to_date (timestamp doc_city) = Some 1704101400000
   \<and> sorted (map fst (area_wise_avg_pm25 id example_avg2 [doc_park, doc_city]))
   \<and> map fst (area_wise_avg_pm25 id example_avg2 [doc_park, doc_city])
       = [''City Center'', ''Park Area'']
   \<and> traffic_density_by_hour id example_to_date example_avg2 [doc_park, doc_city]
       = Inr [(8, Some 1000), (9, Some 1000)]
   \<and> map fst (area_pm id example_avg2 [''Park Area''] [doc_park, doc_city]) = [''Park Area'']"
proof -
  have h: "example_to_date (timestamp doc_park) = Some 1704097800000"
    "example_to_date (timestamp doc_city) = Some 1704101400000"
    by (simp_all add: doc_park_def doc_city_def example_to_date_def)
  have s: "sorted (map fst (area_wise_avg_pm25 id example_avg2 [doc_park, doc_city]))"
    using area_and_hour_rows [OF rearranges_id rearranges_id,
        of example_avg2 "[doc_park, doc_city]" example_to_date "[''Park Area'']"]
    by (rule conjunct1)
  have e: "map fst (area_wise_avg_pm25 id example_avg2 [doc_park, doc_city])
       = [''City Center'', ''Park Area'']"
    by (simp add: area_wise_avg_pm25_def sort_asc_def group_stage_def doc_park_def doc_city_def)
  have t: "traffic_density_by_hour id example_to_date example_avg2 [doc_park, doc_city]
       = Inr [(8, Some 1000), (9, Some 1000)]"
    by (simp add: traffic_density_by_hour_def sort_asc_def group_stage_def avg_round_def
          present_def hour_def example_to_date_def example_avg2_def doc_park_def doc_city_def)
  have m: "map fst (area_pm id example_avg2 [''Park Area''] [doc_park, doc_city])
      = [''Park Area'']"
    by (simp add: area_pm_def group_stage_def filter_query_def doc_park_def doc_city_def)
  show ?thesis
    by (intro conjI; (rule rearranges_id h s e t m))
qed

text \<open>
  C4 as stated fails on the dashboard's pipeline: with groups emitted in the order in
  which they first appear, the rows of \<open>area_pm\<close> are not ascending by area name, and
  neither are they after the ranking by metric.
\<close>

theorem dashboard_rows_unsorted_counterexample:
  "area_pm id example_avg2 [] [doc_park, doc_city]
     = [(''Park Area'', Some 10100), (''City Center'', Some 10000)]
   \<and> \<not> sorted (map fst (area_pm id example_avg2 [] [doc_park, doc_city]))
   \<and> df_pm id example_avg2 [] [doc_park, doc_city]
     = [(''Park Area'', Some 10100), (''City Center'', Some 10000)]"
  by (simp add: df_pm_def sort_desc_def area_pm_def group_stage_def filter_query_def
        avg_round_def present_def example_avg2_def doc_park_def doc_city_def)

section \<open>Readings that lack a measurement\<close>

lemma present_append: "present (vs @ ws) = present vs @ present ws"
  by (simp add: present_def)

lemma present_Cons_None: "present (None # vs) = present vs"
  by (simp add: present_def)

lemma present_Cons_Some: "present (Some x # vs) = x # present vs"
  by (simp add: present_def)

lemma avg_round_skips_missing: "avg_round avg2 (vs @ None # ws) = avg_round avg2 (vs @ ws)"
  by (simp add: avg_round_def present_append present_Cons_None)

lemma avg_round_counts_present:
  "avg_round avg2 (vs @ Some x # ws) = Some (avg2 (present vs @ x # present ws))"
  by (simp add: avg_round_def present_append present_Cons_Some)

lemma map_of_sort_group_stage:
  assumes "rearranges emit"
  shows "map_of (sort_asc fst (group_stage emit key acc ds)) k =
           (if k \<in> key ` set ds then Some (acc (filter (\<lambda>d. key d = k) ds)) else None)"
  unfolding sort_group_stage [OF assms]
  by (simp add: map_of_map_restrict restrict_map_def)

lemma group_values_skip:
  assumes "field d = None"
  shows "avg_round avg2 (map field (filter (\<lambda>r. key r = k) (xs @ d # ys))) =
         avg_round avg2 (map field (filter (\<lambda>r. key r = k) (xs @ ys)))"
  using assms by (simp add: avg_round_skips_missing)

lemma sort_group_stage_skip:
  assumes "rearranges emit" "field d = None" "key d \<in> key ` set (xs @ ys)"
  shows "sort_asc fst (group_stage emit key (\<lambda>g. avg_round avg2 (map field g)) (xs @ d # ys)) =
         sort_asc fst (group_stage emit key (\<lambda>g. avg_round avg2 (map field g)) (xs @ ys))"
proof -
  have k: "key ` set (xs @ d # ys) = key ` set (xs @ ys)"
    using assms(3) by auto
  show ?thesis
    unfolding sort_group_stage [OF assms(1)] k
    using assms(2) by (simp only: group_values_skip)
qed


lemma map_of_group_missing:
  assumes "rearranges emit" "field d = None"
  shows "map_of (sort_asc fst
            (group_stage emit key (\<lambda>g. avg_round avg2 (map field g)) (xs @ d # ys))) (key d) =
         Some (avg_round avg2 (map field (filter (\<lambda>r. key r = key d) (xs @ ys))))"
  unfolding map_of_sort_group_stage [OF assms(1)]
  using assms(2) by (simp add: avg_round_skips_missing)

lemma map_of_group_present:
  assumes "rearranges emit" "field d = Some n"
  shows "map_of (sort_asc fst
            (group_stage emit key (\<lambda>g. avg_round avg2 (map field g)) (xs @ d # ys))) (key d) =
         Some (Some (avg2 (present (map field (filter (\<lambda>r. key r = key d) xs)) @ n #
                           present (map field (filter (\<lambda>r. key r = key d) ys)))))"
  unfolding map_of_sort_group_stage [OF assms(1)]
  using assms(2) by (simp add: avg_round_counts_present)

lemma get_avg_pm25_skip:
  assumes "pm25 d = None"
  shows "get_avg_pm25 avg2 sel (xs @ d # ys) = get_avg_pm25 avg2 sel (xs @ ys)"
  using assms
  by (simp add: get_avg_pm25_def match_filter_filter group_all_def avg_round_skips_missing
        avg_round_def present_def)

lemma traffic_density_Inr:
  assumes "\<forall>d \<in> set coll. to_date (timestamp d) \<noteq> None"
  shows "traffic_density_by_hour emit to_date avg2 coll =
    Inr (sort_asc fst (group_stage emit (\<lambda>p. hour (snd p))
           (\<lambda>g. avg_round avg2 (map (\<lambda>p. traffic_count (fst p)) g))
           (map (\<lambda>d. (d, the (to_date (timestamp d)))) coll)))"
  by (simp add: traffic_density_by_hour_def add_ts_Inr [OF assms] case_prod_unfold)

lemma same_hour_filter:
  assumes "\<forall>r \<in> set zs. to_date (timestamp r) \<noteq> None"
  shows "map (\<lambda>p. traffic_count (fst p))
           (filter (\<lambda>p. hour (snd p) = h) (map (\<lambda>d. (d, the (to_date (timestamp d)))) zs)) =
         map traffic_count
           (filter (\<lambda>r. map_option hour (to_date (timestamp r)) = Some h) zs)"
  using assms by (induction zs) auto


lemma traffic_density_skip:
  assumes emit: "rearranges emit"
    and ok: "\<forall>r \<in> set (xs @ d # ys). to_date (timestamp r) \<noteq> None"
    and missing: "traffic_count d = None"
    and other: "\<exists>r \<in> set (xs @ ys).
                  map_option hour (to_date (timestamp r)) = map_option hour (to_date (timestamp d))"
  shows "traffic_density_by_hour emit to_date avg2 (xs @ d # ys) =
         traffic_density_by_hour emit to_date avg2 (xs @ ys)"
proof -
  let ?pair = "\<lambda>d. (d, the (to_date (timestamp d)))"
  have ok': "\<forall>r \<in> set (xs @ ys). to_date (timestamp r) \<noteq> None"
    using ok by simp
  have m: "traffic_count (fst (?pair d)) = None"
    using missing by simp
  obtain r where r: "r \<in> set (xs @ ys)"
    "map_option hour (to_date (timestamp r)) = map_option hour (to_date (timestamp d))"
    using other by blast
  have "to_date (timestamp r) \<noteq> None" "to_date (timestamp d) \<noteq> None"
    using ok r(1) by auto
  then obtain t t' where "to_date (timestamp r) = Some t" "to_date (timestamp d) = Some t'"
    by blast
  then have "hour (the (to_date (timestamp d))) = hour (the (to_date (timestamp r)))"
    using r(2) by simp
  then have "hour (the (to_date (timestamp d))) \<in>
          (\<lambda>r. hour (the (to_date (timestamp r)))) ` set (xs @ ys)"
    using r(1) by (rule image_eqI)
  then have k: "hour (snd (?pair d)) \<in> (\<lambda>p. hour (snd p)) ` set (map ?pair xs @ map ?pair ys)"
    by (simp add: image_image image_Un)
  have "sort_asc fst (group_stage emit (\<lambda>p. hour (snd p))
           (\<lambda>g. avg_round avg2 (map (\<lambda>p. traffic_count (fst p)) g))
           (map ?pair xs @ ?pair d # map ?pair ys)) =
        sort_asc fst (group_stage emit (\<lambda>p. hour (snd p))
           (\<lambda>g. avg_round avg2 (map (\<lambda>p. traffic_count (fst p)) g))
           (map ?pair xs @ map ?pair ys))"
    using emit m k by (rule sort_group_stage_skip)
  then show ?thesis
    unfolding traffic_density_Inr [OF ok] traffic_density_Inr [OF ok'] by simp
qed

lemma traffic_density_present:
  assumes emit: "rearranges emit"
    and ok: "\<forall>r \<in> set (xs @ d # ys). to_date (timestamp r) \<noteq> None"
    and val: "traffic_count d = Some n"
    and t: "to_date (timestamp d) = Some t"
  shows "\<exists>rows. traffic_density_by_hour emit to_date avg2 (xs @ d # ys) = Inr rows
     \<and> map_of rows (hour t) =
         Some (Some (avg2
           (present (map traffic_count
              (filter (\<lambda>r. map_option hour (to_date (timestamp r)) = Some (hour t)) xs)) @ n #
            present (map traffic_count
              (filter (\<lambda>r. map_option hour (to_date (timestamp r)) = Some (hour t)) ys)))))"
proof -
  let ?pair = "\<lambda>d. (d, the (to_date (timestamp d)))"
  let ?rows = "sort_asc fst (group_stage emit (\<lambda>p. hour (snd p))
           (\<lambda>g. avg_round avg2 (map (\<lambda>p. traffic_count (fst p)) g))
           (map ?pair xs @ ?pair d # map ?pair ys))"
  have okx: "\<forall>r \<in> set xs. to_date (timestamp r) \<noteq> None"
    and oky: "\<forall>r \<in> set ys. to_date (timestamp r) \<noteq> None"
    using ok by simp_all
  have r: "traffic_density_by_hour emit to_date avg2 (xs @ d # ys) = Inr ?rows"
    unfolding traffic_density_Inr [OF ok] by simp
  have v: "traffic_count (fst (?pair d)) = Some n"
    using val by simp
  have h: "hour (snd (?pair d)) = hour t"
    using t by simp
  have "map_of ?rows (hour (snd (?pair d))) =
      Some (Some (avg2
        (present (map (\<lambda>p. traffic_count (fst p))
           (filter (\<lambda>p. hour (snd p) = hour (snd (?pair d))) (map ?pair xs))) @ n #
         present (map (\<lambda>p. traffic_count (fst p))
           (filter (\<lambda>p. hour (snd p) = hour (snd (?pair d))) (map ?pair ys))))))"
    using emit v by (rule map_of_group_present)
  then have "map_of ?rows (hour t) =
      Some (Some (avg2
           (present (map traffic_count
              (filter (\<lambda>r. map_option hour (to_date (timestamp r)) = Some (hour t)) xs)) @ n #
            present (map traffic_count
              (filter (\<lambda>r. map_option hour (to_date (timestamp r)) = Some (hour t)) ys)))))"
    unfolding h same_hour_filter [OF okx] same_hour_filter [OF oky] .
  with r show ?thesis by blast
qed


text \<open>
  C9. Let the reading \<open>d\<close> stand anywhere in the collection. If \<open>d\<close> lacks \<open>pm25\<close>, the
  row of its area averages the \<open>pm25\<close> of the other readings of the area only, the whole
  result is the one without \<open>d\<close> as soon as the area has another reading, and the
  global average is the one without \<open>d\<close>; likewise for \<open>noise_db\<close>, and for
  \<open>traffic_count\<close> in the hourly result. A measurement that \<open>d\<close> does have enters the
  average of its area, or hour, whatever else \<open>d\<close> lacks, and the area of \<open>d\<close> has a
  row in both area results.
\<close>

theorem missing_field_skipped_in_its_average:
  assumes "rearranges emit" "rearranges emit_h"
  shows
    "(pm25 d = None \<longrightarrow>
        map_of (area_wise_avg_pm25 emit avg2 (xs @ d # ys)) (area d) =
          Some (avg_round avg2 (map pm25 (filter (\<lambda>r. area r = area d) (xs @ ys))))
        \<and> (area d \<in> area ` set (xs @ ys) \<longrightarrow>
             area_wise_avg_pm25 emit avg2 (xs @ d # ys) = area_wise_avg_pm25 emit avg2 (xs @ ys))
        \<and> get_avg_pm25 avg2 sel (xs @ d # ys) = get_avg_pm25 avg2 sel (xs @ ys))
   \<and> (noise_db d = None \<longrightarrow>
        map_of (avg_noise_by_area emit avg2 (xs @ d # ys)) (area d) =
          Some (avg_round avg2 (map noise_db (filter (\<lambda>r. area r = area d) (xs @ ys))))
        \<and> (area d \<in> area ` set (xs @ ys) \<longrightarrow>
             avg_noise_by_area emit avg2 (xs @ d # ys) = avg_noise_by_area emit avg2 (xs @ ys)))
   \<and> (traffic_count d = None
        \<and> (\<forall>r \<in> set (xs @ d # ys). to_date (timestamp r) \<noteq> None)
        \<and> (\<exists>r \<in> set (xs @ ys).
              map_option hour (to_date (timestamp r)) = map_option hour (to_date (timestamp d)))
        \<longrightarrow>
        traffic_density_by_hour emit_h to_date avg2 (xs @ d # ys) =
          traffic_density_by_hour emit_h to_date avg2 (xs @ ys))
   \<and> (pm25 d = Some n \<longrightarrow>
        map_of (area_wise_avg_pm25 emit avg2 (xs @ d # ys)) (area d) =
          Some (Some (avg2 (present (map pm25 (filter (\<lambda>r. area r = area d) xs)) @ n #
                            present (map pm25 (filter (\<lambda>r. area r = area d) ys))))))
   \<and> (noise_db d = Some n \<longrightarrow>
        map_of (avg_noise_by_area emit avg2 (xs @ d # ys)) (area d) =
          Some (Some (avg2 (present (map noise_db (filter (\<lambda>r. area r = area d) xs)) @ n #
                            present (map noise_db (filter (\<lambda>r. area r = area d) ys))))))
   \<and> (traffic_count d = Some n
        \<and> (\<forall>r \<in> set (xs @ d # ys). to_date (timestamp r) \<noteq> None)
        \<and> to_date (timestamp d) = Some t \<longrightarrow>
        (\<exists>rows. traffic_density_by_hour emit_h to_date avg2 (xs @ d # ys) = Inr rows
           \<and> map_of rows (hour t) =
               Some (Some (avg2
                 (present (map traffic_count
                    (filter (\<lambda>r. map_option hour (to_date (timestamp r)) = Some (hour t)) xs))
                  @ n #
                  present (map traffic_count
                    (filter (\<lambda>r. map_option hour (to_date (timestamp r)) = Some (hour t)) ys)))))))
   \<and> area d \<in> set (map fst (area_wise_avg_pm25 emit avg2 (xs @ d # ys)))
   \<and> area d \<in> set (map fst (avg_noise_by_area emit avg2 (xs @ d # ys)))"
proof -
  note e = assms(1) and eh = assms(2)
  have p1: "pm25 d = None \<Longrightarrow>
        map_of (area_wise_avg_pm25 emit avg2 (xs @ d # ys)) (area d) =
          Some (avg_round avg2 (map pm25 (filter (\<lambda>r. area r = area d) (xs @ ys))))"
    unfolding area_wise_avg_pm25_def by (rule map_of_group_missing [OF e])
  have p2: "pm25 d = None \<Longrightarrow> area d \<in> area ` set (xs @ ys) \<Longrightarrow>
        area_wise_avg_pm25 emit avg2 (xs @ d # ys) = area_wise_avg_pm25 emit avg2 (xs @ ys)"
    unfolding area_wise_avg_pm25_def by (rule sort_group_stage_skip [OF e])
  have p3: "pm25 d = None \<Longrightarrow>
        get_avg_pm25 avg2 sel (xs @ d # ys) = get_avg_pm25 avg2 sel (xs @ ys)"
    by (rule get_avg_pm25_skip)
  have n1: "noise_db d = None \<Longrightarrow>
        map_of (avg_noise_by_area emit avg2 (xs @ d # ys)) (area d) =
          Some (avg_round avg2 (map noise_db (filter (\<lambda>r. area r = area d) (xs @ ys))))"
    unfolding avg_noise_by_area_def by (rule map_of_group_missing [OF e])
  have n2: "noise_db d = None \<Longrightarrow> area d \<in> area ` set (xs @ ys) \<Longrightarrow>
        avg_noise_by_area emit avg2 (xs @ d # ys) = avg_noise_by_area emit avg2 (xs @ ys)"
    unfolding avg_noise_by_area_def by (rule sort_group_stage_skip [OF e])
  have t1: "traffic_count d = None
        \<and> (\<forall>r \<in> set (xs @ d # ys). to_date (timestamp r) \<noteq> None)
        \<and> (\<exists>r \<in> set (xs @ ys).
              map_option hour (to_date (timestamp r)) = map_option hour (to_date (timestamp d)))
        \<Longrightarrow>
        traffic_density_by_hour emit_h to_date avg2 (xs @ d # ys) =
          traffic_density_by_hour emit_h to_date avg2 (xs @ ys)"
    by (elim conjE) (rule traffic_density_skip [OF eh])
  have p4: "pm25 d = Some n \<Longrightarrow>
        map_of (area_wise_avg_pm25 emit avg2 (xs @ d # ys)) (area d) =
          Some (Some (avg2 (present (map pm25 (filter (\<lambda>r. area r = area d) xs)) @ n #
                            present (map pm25 (filter (\<lambda>r. area r = area d) ys)))))"
    unfolding area_wise_avg_pm25_def by (rule map_of_group_present [OF e])
  have n4: "noise_db d = Some n \<Longrightarrow>
        map_of (avg_noise_by_area emit avg2 (xs @ d # ys)) (area d) =
          Some (Some (avg2 (present (map noise_db (filter (\<lambda>r. area r = area d) xs)) @ n #
                            present (map noise_db (filter (\<lambda>r. area r = area d) ys)))))"
    unfolding avg_noise_by_area_def by (rule map_of_group_present [OF e])
  have t4: "traffic_count d = Some n
        \<and> (\<forall>r \<in> set (xs @ d # ys). to_date (timestamp r) \<noteq> None)
        \<and> to_date (timestamp d) = Some t \<Longrightarrow>
        (\<exists>rows. traffic_density_by_hour emit_h to_date avg2 (xs @ d # ys) = Inr rows
           \<and> map_of rows (hour t) =
               Some (Some (avg2
                 (present (map traffic_count
                    (filter (\<lambda>r. map_option hour (to_date (timestamp r)) = Some (hour t)) xs))
                  @ n #
                  present (map traffic_count
                    (filter (\<lambda>r. map_option hour (to_date (timestamp r)) = Some (hour t)) ys))))))"
    by (elim conjE) (rule traffic_density_present [OF eh])
  have ks: "set (map fst (sort_asc fst (group_stage emit area acc (xs @ d # ys)))) =
      area ` set (xs @ d # ys)" for acc :: "document list \<Rightarrow> 'a option"
    using area_keys_sorted [OF e, of area acc "xs @ d # ys"] by blast
  have g: "area d \<in> set (map fst (area_wise_avg_pm25 emit avg2 (xs @ d # ys)))"
    "area d \<in> set (map fst (avg_noise_by_area emit avg2 (xs @ d # ys)))"
    unfolding area_wise_avg_pm25_def avg_noise_by_area_def ks by simp_all
  show ?thesis
    by (intro conjI impI; (rule p1 p2 p3 n1 n2 t1 p4 n4 t4 g; assumption?))
qed

theorem missing_field_skipped_in_its_average_witness:
  "rearranges (id :: (string \<times> int option) list \<Rightarrow> (string \<times> int option) list)
   \<and> rearranges (id :: (nat \<times> int option) list \<Rightarrow> (nat \<times> int option) list)
   \<and> pm25 doc_no_pm25 = None
   \<and> area doc_no_pm25 \<in> area ` set ([doc_park] @ [doc_city])
   \<and> noise_db doc_no_pm25 = Some 60
   \<and> area_wise_avg_pm25 id example_avg2 ([doc_park] @ doc_no_pm25 # [doc_city])
       = area_wise_avg_pm25 id example_avg2 ([doc_park] @ [doc_city])
   \<and> area_wise_avg_pm25 id example_avg2 [doc_park, doc_no_pm25, doc_city]
       = [(''City Center'', Some 10000), (''Park Area'', Some 10100)]
   \<and> avg_noise_by_area id example_avg2 [doc_park, doc_no_pm25, doc_city]
       = [(''City Center'', Some 1000), (''Park Area'', Some 3500)]
   \<and> avg_noise_by_area id example_avg2 [doc_park, doc_city]
       = [(''City Center'', Some 1000), (''Park Area'', Some 1000)]"
proof -
  have h1: "pm25 doc_no_pm25 = None"
    by (simp add: doc_no_pm25_def)
  have h2: "area doc_no_pm25 \<in> area ` set ([doc_park] @ [doc_city])"
    by (simp add: doc_no_pm25_def doc_park_def)
  have h3: "noise_db doc_no_pm25 = Some 60"
    by (simp add: doc_no_pm25_def)
  note t = missing_field_skipped_in_its_average [OF rearranges_id rearranges_id,
      of doc_no_pm25 example_avg2 "[doc_park]" "[doc_city]"]
  have c: "area_wise_avg_pm25 id example_avg2 ([doc_park] @ doc_no_pm25 # [doc_city])
       = area_wise_avg_pm25 id example_avg2 ([doc_park] @ [doc_city])"
    using t [THEN conjunct1, THEN mp, OF h1] h2 by blast
  have v1: "area_wise_avg_pm25 id example_avg2 [doc_park, doc_no_pm25, doc_city]
       = [(''City Center'', Some 10000), (''Park Area'', Some 10100)]"
    by (simp add: area_wise_avg_pm25_def sort_asc_def group_stage_def avg_round_def
          present_def example_avg2_def doc_park_def doc_city_def doc_no_pm25_def)
  have v2: "avg_noise_by_area id example_avg2 [doc_park, doc_no_pm25, doc_city]
       = [(''City Center'', Some 1000), (''Park Area'', Some 3500)]"
    by (simp add: avg_noise_by_area_def sort_asc_def group_stage_def avg_round_def
          present_def example_avg2_def doc_park_def doc_city_def doc_no_pm25_def)
  have v3: "avg_noise_by_area id example_avg2 [doc_park, doc_city]
       = [(''City Center'', Some 1000), (''Park Area'', Some 1000)]"
    by (simp add: avg_noise_by_area_def sort_asc_def group_stage_def avg_round_def
          present_def example_avg2_def doc_park_def doc_city_def)
  show ?thesis
    by (intro conjI; (rule rearranges_id h1 h2 h3 c v1 v2 v3))
qed

end
